theory Spec2Isabelle
  imports Complex_Main
begin

section \<open>Data model\<close>

text \<open>
  The notebook works on two pandas frames read from CSV files: \<open>df\<close>, the draft picks
  (one row per pick), and \<open>combine_df\<close>, the Combine measurements. A frame is modelled as
  the list of its rows in index order, a row as a record with one field per column.

  A column read by \<open>pd.read_csv\<close> is either a numeric column, whose cells are numbers or
  NaN, or an object column, whose cells are Python strings or NaN. A cell of such a column
  is an \<open>option\<close>, \<open>None\<close> being NaN. Numbers are the rationals they denote: no
  arithmetic is done on them here, they are only compared.

  The strings of the name, school, position and team columns are only ever compared with
  each other and with the two team names. Such a string is the list of the bytes of its
  UTF-8 encoding, which determines it.

  The \<open>Ht\<close> column first holds strings and later, after decoding, numbers; its cells are
  values of the type \<open>cell\<close>, which is also the argument type of the dynamically typed
  \<open>convert_height_inches\<close>. The characters of a height string are inspected one by one,
  so there a string is the list of its Unicode code points. An ASCII literal has its bytes
  as code points.
\<close>

type_synonym str_cell = "string option"
type_synonym num_cell = "rat option"
type_synonym pystr = "nat list"

datatype cell = NaN | Num rat | Str pystr

definition ascii :: "string \<Rightarrow> pystr" where
  "ascii s = map of_char s"

datatype py_error = AttributeError | ValueError

text \<open>The draft frame \<open>df\<close> (source A).\<close>

record draft_row =
  Year :: num_cell
  Round :: num_cell
  Overall :: num_cell
  Name :: str_cell
  School :: str_cell
  Position :: str_cell
  Team :: str_cell

text \<open>
  The frame \<open>combine_df\<close> (source B). The columns \<open>40yd\<close>, \<open>Broad Jump\<close> and
  \<open>3Cone\<close> carry the names the notebook itself renames them to later
  (\<open>Forty_yd\<close>, \<open>Broad_Jump\<close>, \<open>Cone_3\<close>).
\<close>

record combine_row =
  Player :: str_cell
  School :: str_cell
  draft_year :: num_cell
  Pos :: str_cell
  Ht :: cell
  Wt :: num_cell
  Forty_yd :: num_cell
  Vertical :: num_cell
  Bench :: num_cell
  Broad_Jump :: num_cell
  Cone_3 :: num_cell
  Shuttle :: num_cell

section \<open>Team aliasing: \<open>df.replace(to_replace='TEAM', value='COMMANDERS')\<close>\<close>

text \<open>
  \<open>DataFrame.replace\<close> with two scalars goes through every column of the frame and
  replaces each cell equal to \<open>to_replace\<close> by \<open>value\<close>. No column is named in the call.
  A cell of a numeric column is never equal to the string \<open>'TEAM'\<close>, so the numeric
  columns come back as they were.
\<close>

definition replace_cell :: "str_cell \<Rightarrow> str_cell" where
  "replace_cell c = (if c = Some ''TEAM'' then Some ''COMMANDERS'' else c)"

definition replace_row :: "draft_row \<Rightarrow> draft_row" where
  "replace_row r =
     r\<lparr>Name := replace_cell (Name r),
       draft_row.School := replace_cell (draft_row.School r),
       Position := replace_cell (Position r),
       Team := replace_cell (Team r)\<rparr>"

definition replace :: "draft_row list \<Rightarrow> draft_row list" where
  "replace df = map replace_row df"

section \<open>School reconciliation: the loop over \<open>df.iterrows()\<close>\<close>

text \<open>
  The elementwise \<open>==\<close> of a column with a scalar is false wherever either side is NaN.
\<close>

definition py_eq :: "'a option \<Rightarrow> 'a option \<Rightarrow> bool" where
  "py_eq a b = (case a of None \<Rightarrow> False | Some x \<Rightarrow> (case b of None \<Rightarrow> False | Some y \<Rightarrow> x = y))"

text \<open>The boolean mask \<open>matching_row_index\<close>, at one row of \<open>combine_df\<close>.\<close>

definition matching_row_index :: "draft_row \<Rightarrow> combine_row \<Rightarrow> bool" where
  "matching_row_index row c =
     (py_eq (combine_row.Player c) (Name row)
      \<and> py_eq (combine_row.draft_year c) (Year row))"

text \<open>
  One iteration of the loop body: when the selection \<open>matching_row\<close> is not empty, the
  \<open>School\<close> cell of every selected row is overwritten with the draft row's school.
\<close>

definition link_step :: "combine_row list \<Rightarrow> draft_row \<Rightarrow> combine_row list" where
  "link_step combine_df row =
     (if filter (matching_row_index row) combine_df \<noteq> []
      then map (\<lambda>c. if matching_row_index row c
                     then c\<lparr>combine_row.School := draft_row.School row\<rparr> else c) combine_df
      else combine_df)"

definition linker :: "draft_row list \<Rightarrow> combine_row list \<Rightarrow> combine_row list" where
  "linker df combine_df = foldl link_step combine_df df"

section \<open>The join: \<open>pd.merge(df, combine_df, how='left', ...)\<close>\<close>

text \<open>
  The merged frame has the columns of \<open>df\<close> followed by the columns of \<open>combine_df\<close>;
  the key column \<open>School\<close>, which has the same name on both sides, occurs once.
\<close>

record merged_row = draft_row +
  Player :: str_cell
  draft_year :: num_cell
  Pos :: str_cell
  Ht :: cell
  Wt :: num_cell
  Forty_yd :: num_cell
  Vertical :: num_cell
  Bench :: num_cell
  Broad_Jump :: num_cell
  Cone_3 :: num_cell
  Shuttle :: num_cell

text \<open>
  The join compares the key columns \<open>left_on=['Name', 'School', 'Year']\<close> with
  \<open>right_on=['Player', 'School', 'draft_year']\<close>. Unlike \<open>==\<close>, a merge matches a NaN
  key with a NaN key, which is what equality of \<open>option\<close> values does.
\<close>

definition key_match :: "draft_row \<Rightarrow> combine_row \<Rightarrow> bool" where
  "key_match l r =
     (Name l = combine_row.Player r \<and> draft_row.School l = combine_row.School r
      \<and> Year l = combine_row.draft_year r)"

text \<open>The output row for a left row and one right row that matches it.\<close>

definition matched :: "draft_row \<Rightarrow> combine_row \<Rightarrow> merged_row" where
  "matched l r = draft_row.extend l
     \<lparr>merged_row.Player = combine_row.Player r,
      merged_row.draft_year = combine_row.draft_year r,
      merged_row.Pos = combine_row.Pos r,
      merged_row.Ht = combine_row.Ht r,
      merged_row.Wt = combine_row.Wt r,
      merged_row.Forty_yd = combine_row.Forty_yd r,
      merged_row.Vertical = combine_row.Vertical r,
      merged_row.Bench = combine_row.Bench r,
      merged_row.Broad_Jump = combine_row.Broad_Jump r,
      merged_row.Cone_3 = combine_row.Cone_3 r,
      merged_row.Shuttle = combine_row.Shuttle r\<rparr>"

text \<open>The output row for a left row that no right row matches: NaN in every right column.\<close>

definition unmatched :: "draft_row \<Rightarrow> merged_row" where
  "unmatched l = draft_row.extend l
     \<lparr>merged_row.Player = None,
      merged_row.draft_year = None,
      merged_row.Pos = None,
      merged_row.Ht = NaN,
      merged_row.Wt = None,
      merged_row.Forty_yd = None,
      merged_row.Vertical = None,
      merged_row.Bench = None,
      merged_row.Broad_Jump = None,
      merged_row.Cone_3 = None,
      merged_row.Shuttle = None\<rparr>"

text \<open>
  A left join keeps the order of the left frame; the rows that one left row gives rise to
  follow the order of the right frame.
\<close>

definition join_row :: "combine_row list \<Rightarrow> draft_row \<Rightarrow> merged_row list" where
  "join_row right l =
     (case filter (key_match l) right of
        [] \<Rightarrow> [unmatched l]
      | r # rs \<Rightarrow> map (matched l) (r # rs))"

definition merge :: "draft_row list \<Rightarrow> combine_row list \<Rightarrow> merged_row list" where
  "merge left right = concat (map (join_row right) left)"

section \<open>Column pruning and deduplication\<close>

text \<open>\<open>merged_data.drop(['Pos', 'draft_year', 'Player'], axis=1, inplace=True)\<close>\<close>

record pruned_row = draft_row +
  Ht :: cell
  Wt :: num_cell
  Forty_yd :: num_cell
  Vertical :: num_cell
  Bench :: num_cell
  Broad_Jump :: num_cell
  Cone_3 :: num_cell
  Shuttle :: num_cell

definition drop_row :: "merged_row \<Rightarrow> pruned_row" where
  "drop_row m = draft_row.extend (draft_row.truncate m)
     \<lparr>pruned_row.Ht = merged_row.Ht m,
      pruned_row.Wt = merged_row.Wt m,
      pruned_row.Forty_yd = merged_row.Forty_yd m,
      pruned_row.Vertical = merged_row.Vertical m,
      pruned_row.Bench = merged_row.Bench m,
      pruned_row.Broad_Jump = merged_row.Broad_Jump m,
      pruned_row.Cone_3 = merged_row.Cone_3 m,
      pruned_row.Shuttle = merged_row.Shuttle m\<rparr>"

definition drop_cols :: "merged_row list \<Rightarrow> pruned_row list" where
  "drop_cols merged_data = map drop_row merged_data"

text \<open>
  \<open>merged_data.drop_duplicates(subset=['Name', 'School', 'Year'], keep='first', inplace=True)\<close>:
  the frame is scanned in index order with the keys met so far; a row whose key has been
  met is dropped. NaN keys count as equal here.
\<close>

type_synonym key = "str_cell \<times> str_cell \<times> num_cell"

definition subset_cols :: "'a draft_row_scheme \<Rightarrow> key" where
  "subset_cols r = (Name r, draft_row.School r, Year r)"

fun drop_duplicates_from :: "key list \<Rightarrow> pruned_row list \<Rightarrow> pruned_row list" where
  "drop_duplicates_from seen [] = []"
| "drop_duplicates_from seen (r # rs) =
     (if subset_cols r \<in> set seen then drop_duplicates_from seen rs
      else r # drop_duplicates_from (subset_cols r # seen) rs)"

definition drop_duplicates :: "pruned_row list \<Rightarrow> pruned_row list" where
  "drop_duplicates merged_data = drop_duplicates_from [] merged_data"

section \<open>Height decoding: \<open>convert_height_inches\<close>\<close>

text \<open>\<open>height.split('-')\<close>: the fields between the dashes, at least one, possibly empty.\<close>

fun split :: "'a \<Rightarrow> 'a list \<Rightarrow> 'a list list" where
  "split sep [] = [[]]"
| "split sep (c # cs) =
     (if c = sep then [] # split sep cs
      else (case split sep cs of [] \<Rightarrow> [[c]] | p # ps \<Rightarrow> (c # p) # ps))"

text \<open>
  What the built-in \<open>int\<close> does with a string depends on the interpreter that runs the
  notebook, in three respects that are no part of the notebook's text. They are parameters
  of the model:
  \<^item> \<open>int_max_str_digits\<close>, the value of \<open>sys.get_int_max_str_digits()\<close>, the cap on the
    number of digits of a literal (0: no cap; the notebook never sets it);
  \<^item> \<open>unicode_isspace\<close> and \<open>unicode_todecimal\<close>, the interpreter's Unicode tables of
    whitespace and of decimal digits with their values, which are consulted for code
    points from 127 on.
\<close>

record interp =
  int_max_str_digits :: nat
  unicode_isspace :: "nat \<Rightarrow> bool"
  unicode_todecimal :: "nat \<Rightarrow> nat option"

text \<open>
  \<open>int\<close> first rewrites a string that is not pure ASCII: a code point below 127 stays, a
  whitespace becomes a blank, a decimal digit of any script becomes the ASCII digit of its
  value, and at the first other code point the string is cut off with a question mark. (A
  table entry that is no digit value is taken as no digit.)
\<close>

fun transform :: "interp \<Rightarrow> pystr \<Rightarrow> pystr" where
  "transform I [] = []"
| "transform I (ch # s) =
     (if ch < 127 then ch # transform I s
      else if unicode_isspace I ch then 32 # transform I s
      else (case unicode_todecimal I ch of
              None \<Rightarrow> [63]
            | Some decimal \<Rightarrow> if decimal < 10 then (48 + decimal) # transform I s else [63]))"

definition to_ascii :: "interp \<Rightarrow> pystr \<Rightarrow> pystr" where
  "to_ascii I s = (if list_all (\<lambda>ch. ch < 128) s then s else transform I s)"

text \<open>
  The ASCII text is then read in base 10. The whitespace of the C parser (tab, line feed,
  vertical tab, form feed, carriage return, blank) is skipped on both sides. Then comes an
  optional sign, directly followed by decimal digits; a single underscore may stand
  between two digits. A literal of more than 640 digits that exceeds the cap is refused.
  Every failure is a ValueError.
\<close>

definition py_isspace :: "nat \<Rightarrow> bool" where
  "py_isspace c = (c \<in> set [9, 10, 11, 12, 13, 32])"

definition is_digit :: "nat \<Rightarrow> bool" where
  "is_digit c = (48 \<le> c \<and> c \<le> 57)"

definition digit_val :: "nat \<Rightarrow> int" where
  "digit_val c = int c - 48"

definition strip :: "pystr \<Rightarrow> pystr" where
  "strip s = rev (dropWhile py_isspace (rev (dropWhile py_isspace s)))"

text \<open>The digits after the first one, with the value read so far; 95 is the underscore.\<close>

fun digits_from :: "int \<Rightarrow> pystr \<Rightarrow> py_error + int" where
  "digits_from acc [] = Inr acc"
| "digits_from acc (c # cs) =
     (if is_digit c then digits_from (acc * 10 + digit_val c) cs
      else if c = 95 then
        (case cs of
           [] \<Rightarrow> Inl ValueError
         | d # ds \<Rightarrow> if is_digit d then digits_from (acc * 10 + digit_val d) ds
                     else Inl ValueError)
      else Inl ValueError)"

definition exceeds_limit :: "interp \<Rightarrow> nat \<Rightarrow> bool" where
  "exceeds_limit I digits =
     (digits > 640 \<and> int_max_str_digits I > 0 \<and> digits > int_max_str_digits I)"

definition unsigned :: "interp \<Rightarrow> pystr \<Rightarrow> py_error + int" where
  "unsigned I s =
     (case s of
        [] \<Rightarrow> Inl ValueError
      | c # cs \<Rightarrow>
          if is_digit c then
            (case digits_from (digit_val c) cs of
               Inl e \<Rightarrow> Inl e
             | Inr v \<Rightarrow> if exceeds_limit I (length (filter is_digit s))
                        then Inl ValueError else Inr v)
          else Inl ValueError)"

text \<open>43 is the plus sign, 45 the minus sign.\<close>

definition py_int :: "interp \<Rightarrow> pystr \<Rightarrow> py_error + int" where
  "py_int I s =
     (case strip (to_ascii I s) of
        [] \<Rightarrow> Inl ValueError
      | c # cs \<Rightarrow>
          if c = 43 then unsigned I cs
          else if c = 45 then map_sum id uminus (unsigned I cs)
          else unsigned I (c # cs))"

text \<open>
  The body of the \<open>try\<close>. A value that is not a string has no \<open>split\<close>: AttributeError.
  Unpacking \<open>map(int, ...)\<close> into \<open>feet, inches\<close> raises ValueError unless there are
  exactly two fields, as does \<open>int\<close> on a field it cannot read.
\<close>

fun convert_height_body :: "interp \<Rightarrow> cell \<Rightarrow> py_error + int" where
  "convert_height_body I (Str height) =
     (case map (py_int I) (split 45 height) of
        [Inr feet, Inr inches] \<Rightarrow> Inr (feet * 12 + inches)
      | _ \<Rightarrow> Inl ValueError)"
| "convert_height_body I _ = Inl AttributeError"

text \<open>The bare \<open>except\<close> turns every exception into the result \<open>None\<close>.\<close>

definition convert_height_inches :: "interp \<Rightarrow> cell \<Rightarrow> int option" where
  "convert_height_inches I height =
     (case convert_height_body I height of
        Inr total_inches \<Rightarrow> Some total_inches
      | Inl e \<Rightarrow> None)"

text \<open>
  \<open>merged_data['Ht'] = merged_data['Ht'].apply(convert_height_inches)\<close>: a \<open>None\<close> result
  is stored as NaN, an integer as a number.
\<close>

definition apply_Ht :: "interp \<Rightarrow> pruned_row list \<Rightarrow> pruned_row list" where
  "apply_Ht I merged_data =
     map (\<lambda>r. r\<lparr>pruned_row.Ht :=
                  (case convert_height_inches I (pruned_row.Ht r) of
                     None \<Rightarrow> NaN | Some n \<Rightarrow> Num (of_int n))\<rparr>) merged_data"

text \<open>
  The default settings of CPython 3.11: a cap of 4300 digits and the tables of
  Unicode 14.0. The decimal digits of every script form blocks of ten consecutive code
  points with the values 0 to 9; the table lists the first code point of each block
  beyond ASCII.
\<close>

definition decimal_zeros :: "nat list" where
  "decimal_zeros =
     [1632, 1776, 1984, 2406, 2534, 2662, 2790, 2918, 3046, 3174, 3302, 3430, 3558, 3664,
      3792, 3872, 4160, 4240, 6112, 6160, 6470, 6608, 6784, 6800, 6992, 7088, 7232, 7248,
      42528, 43216, 43264, 43472, 43504, 43600, 44016, 65296, 66720, 68912, 69734, 69872,
      69942, 70096, 70384, 70736, 70864, 71248, 71360, 71472, 71904, 72016, 72784, 73040,
      73120, 92768, 92864, 93008, 120782, 120792, 120802, 120812, 120822, 123200, 123632,
      125264, 130032]"

definition cpython_isspace :: "nat \<Rightarrow> bool" where
  "cpython_isspace ch =
     (ch \<in> set [133, 160, 5760, 8232, 8233, 8239, 8287, 12288] \<or> (8192 \<le> ch \<and> ch \<le> 8202))"

definition cpython_todecimal :: "nat \<Rightarrow> nat option" where
  "cpython_todecimal ch =
     (case filter (\<lambda>zero. zero \<le> ch \<and> ch < zero + 10) decimal_zeros of
        [] \<Rightarrow> None
      | zero # zeros \<Rightarrow> Some (ch - zero))"

definition cpython_3_11 :: interp where
  "cpython_3_11 =
     \<lparr>int_max_str_digits = 4300,
      unicode_isspace = cpython_isspace,
      unicode_todecimal = cpython_todecimal\<rparr>"

section \<open>The pipeline, cells 7 to 18 of the notebook\<close>

definition pipeline :: "interp \<Rightarrow> draft_row list \<Rightarrow> combine_row list \<Rightarrow> pruned_row list" where
  "pipeline I df0 combine_df0 =
     (let df = replace df0;
          combine_df = linker df combine_df0;
          merged_data = merge df combine_df
      in apply_Ht I (drop_duplicates (drop_cols merged_data)))"

section \<open>Reference notions used to state the properties\<close>

text \<open>
  The closed form of the reconciliation loop at one row of \<open>combine_df\<close>: the school of the
  last row of \<open>df\<close> that selects it, if there is one.
\<close>

definition link_row :: "draft_row list \<Rightarrow> combine_row \<Rightarrow> combine_row" where
  "link_row df c =
     (case filter (\<lambda>d. matching_row_index d c) df of
        [] \<Rightarrow> c
      | d # ds \<Rightarrow> c\<lparr>combine_row.School := draft_row.School (last (d # ds))\<rparr>)"

text \<open>
  A plain integer, as in \<open>"6-2"\<close>: one or more ASCII decimal digits, read in base 10.
\<close>

definition digits_only :: "pystr \<Rightarrow> bool" where
  "digits_only s = (s \<noteq> [] \<and> list_all is_digit s)"

definition decimal :: "pystr \<Rightarrow> int" where
  "decimal s = foldl (\<lambda>a c. a * 10 + digit_val c) 0 s"

text \<open>
  What \<open>int\<close> reads, described without reference to the parser. Once digits and
  whitespace of other scripts are written in ASCII, the text consists of groups of digits
  joined by single underscores, after an optional plus sign, with whitespace allowed
  around the whole, and the number of its digits is within the cap; the value is that of
  the digits. (A field between dashes holds no minus sign.)
\<close>

definition unsigned_literal :: "pystr \<Rightarrow> bool" where
  "unsigned_literal s = list_all digits_only (split 95 s)"

definition int_literal :: "interp \<Rightarrow> pystr \<Rightarrow> bool" where
  "int_literal I s =
     (let u = strip (to_ascii I s)
      in unsigned_literal (if u \<noteq> [] \<and> hd u = 43 then tl u else u)
         \<and> \<not> exceeds_limit I (length (filter is_digit (to_ascii I s))))"

definition literal_value :: "interp \<Rightarrow> pystr \<Rightarrow> int" where
  "literal_value I s = decimal (filter is_digit (to_ascii I s))"

text \<open>Digits, possibly followed by underscore-joined groups: what may follow a first digit.\<close>

definition tail_ok :: "pystr \<Rightarrow> bool" where
  "tail_ok s =
     (case split 95 s of
        [] \<Rightarrow> False
      | p # ps \<Rightarrow> list_all is_digit p \<and> list_all digits_only ps)"

section \<open>Team aliasing\<close>

lemma replace_cell_idem: "replace_cell (replace_cell c) = replace_cell c"
  by (simp add: replace_cell_def)

lemma replace_row_idem: "replace_row (replace_row r) = replace_row r"
  by (simp add: replace_row_def replace_cell_idem)

text \<open>
  Claim C6. Team aliasing is total and idempotent: every cell has a result under the
  rename, a cell that is not the old name \<open>'TEAM'\<close> passes through unchanged, and renaming
  twice is renaming once, for a cell and for the whole frame.
\<close>

theorem team_aliasing_idempotent:
  "replace_cell (replace_cell c) = replace_cell c
   \<and> (c \<noteq> Some ''TEAM'' \<longrightarrow> replace_cell c = c)
   \<and> replace_cell (Some ''TEAM'') = Some ''COMMANDERS''
   \<and> replace (replace df) = replace df
   \<and> length (replace df) = length df"
  by (simp add: replace_def replace_row_idem replace_cell_idem) (simp add: replace_cell_def)

theorem team_aliasing_idempotent_witness:
  "Some ''BEARS'' \<noteq> Some ''TEAM'' \<and> replace_cell (Some ''BEARS'') = Some ''BEARS''
   \<and> replace_cell (replace_cell (Some ''TEAM'')) = Some ''COMMANDERS''"
  using team_aliasing_idempotent [of "Some ''BEARS''" "[]"]
        team_aliasing_idempotent [of "Some ''TEAM''" "[]"]
  by (simp add: replace_cell_def)

text \<open>
  Claim C7. Team aliasing is meant to touch the \<open>team\<close> field only; the comment above the
  call speaks of renaming the Washington team. The call names no column, however, and so
  the code breaks the frame condition: a draft row whose \<open>Name\<close> is \<open>'TEAM'\<close> leaves the
  step with the name \<open>'COMMANDERS'\<close>.
\<close>

theorem team_aliasing_frame_failing_input:
  "Name (replace_row \<lparr>Year = Some 2020, Round = Some 1, Overall = Some 2,
                      Name = Some ''TEAM'', draft_row.School = Some ''Ohio St.'',
                      Position = Some ''DE'', Team = Some ''TEAM''\<rparr>)
     = Some ''COMMANDERS''
   \<and> Name (replace_row \<lparr>Year = Some 2020, Round = Some 1, Overall = Some 2,
                      Name = Some ''TEAM'', draft_row.School = Some ''Ohio St.'',
                      Position = Some ''DE'', Team = Some ''TEAM''\<rparr>)
     \<noteq> Name \<lparr>Year = Some 2020, Round = Some 1, Overall = Some 2,
              Name = Some ''TEAM'', draft_row.School = Some ''Ohio St.'',
              Position = Some ''DE'', Team = Some ''TEAM''\<rparr>"
  by (simp add: replace_row_def replace_cell_def)

section \<open>School reconciliation\<close>

text \<open>The guard on the empty selection changes nothing: the loop body is a map.\<close>

lemma link_step_map:
  "link_step combine_df row =
     map (\<lambda>c. if matching_row_index row c
              then c\<lparr>combine_row.School := draft_row.School row\<rparr> else c) combine_df"
proof (cases "filter (matching_row_index row) combine_df = []")
  case True
  then have "\<forall>c\<in>set combine_df. \<not> matching_row_index row c"
    by (simp add: filter_empty_conv)
  then have "map (\<lambda>c. if matching_row_index row c
                      then c\<lparr>combine_row.School := draft_row.School row\<rparr> else c) combine_df
             = combine_df"
    by (simp add: map_idI)
  with True show ?thesis by (simp add: link_step_def)
next
  case False
  then show ?thesis by (simp add: link_step_def)
qed

text \<open>The loop writes \<open>School\<close> only; the columns the mask reads stay as they were.\<close>

lemma matching_School_update [simp]:
  "matching_row_index d (c\<lparr>combine_row.School := s\<rparr>) = matching_row_index d c"
  by (simp add: matching_row_index_def)

lemma link_row_matching [simp]:
  "matching_row_index d (link_row df c) = matching_row_index d c"
  by (simp add: link_row_def split: list.splits)

lemma linker_snoc: "linker (df @ [d]) combine_df = link_step (linker df combine_df) d"
  by (simp add: linker_def)

lemma linker_map: "linker df combine_df = map (link_row df) combine_df"
proof (induction df rule: rev_induct)
  case Nil
  show ?case by (simp add: linker_def link_row_def)
next
  case (snoc d df)
  have "link_row (df @ [d]) c =
        (if matching_row_index d c
         then (link_row df c)\<lparr>combine_row.School := draft_row.School d\<rparr>
         else link_row df c)" for c
    by (simp add: link_row_def split: list.splits)
  then show ?case by (simp add: linker_snoc snoc.IH link_step_map)
qed

text \<open>
  Two draft rows select the same rows of \<open>combine_df\<close> exactly when they agree, under
  \<open>==\<close>, on name and year.
\<close>

lemma matching_same_identity:
  assumes "matching_row_index d c"
  shows "matching_row_index d' c = (py_eq (Name d') (Name d) \<and> py_eq (Year d') (Year d))"
  using assms by (auto simp: matching_row_index_def py_eq_def split: option.splits)

text \<open>
  Claim C4, as stated, fails when two draft rows share name and year but not school: the
  Combine row ends with the school of the second one, not of the first, although the
  first selects it too.
\<close>

theorem school_reconciliation_counterexample:
  "matching_row_index
     \<lparr>Year = Some 2010, Round = Some 3, Overall = Some 70, Name = Some ''John Smith'',
      draft_row.School = Some ''Alabama'', Position = Some ''DB'', Team = Some ''BEARS''\<rparr>
     (linker
        [\<lparr>Year = Some 2010, Round = Some 3, Overall = Some 70, Name = Some ''John Smith'',
          draft_row.School = Some ''Alabama'', Position = Some ''DB'', Team = Some ''BEARS''\<rparr>,
         \<lparr>Year = Some 2010, Round = Some 6, Overall = Some 190, Name = Some ''John Smith'',
          draft_row.School = Some ''Utah'', Position = Some ''WR'', Team = Some ''JETS''\<rparr>]
        [\<lparr>combine_row.Player = Some ''John Smith'', combine_row.School = Some ''Alabama'',
          combine_row.draft_year = Some 2010, combine_row.Pos = Some ''CB'',
          combine_row.Ht = Str (ascii ''6-0''), combine_row.Wt = Some 195,
          combine_row.Forty_yd = None, combine_row.Vertical = None,
          combine_row.Bench = None, combine_row.Broad_Jump = None,
          combine_row.Cone_3 = None, combine_row.Shuttle = None\<rparr>] ! 0)
   \<and> combine_row.School
       (linker
        [\<lparr>Year = Some 2010, Round = Some 3, Overall = Some 70, Name = Some ''John Smith'',
          draft_row.School = Some ''Alabama'', Position = Some ''DB'', Team = Some ''BEARS''\<rparr>,
         \<lparr>Year = Some 2010, Round = Some 6, Overall = Some 190, Name = Some ''John Smith'',
          draft_row.School = Some ''Utah'', Position = Some ''WR'', Team = Some ''JETS''\<rparr>]
        [\<lparr>combine_row.Player = Some ''John Smith'', combine_row.School = Some ''Alabama'',
          combine_row.draft_year = Some 2010, combine_row.Pos = Some ''CB'',
          combine_row.Ht = Str (ascii ''6-0''), combine_row.Wt = Some 195,
          combine_row.Forty_yd = None, combine_row.Vertical = None,
          combine_row.Bench = None, combine_row.Broad_Jump = None,
          combine_row.Cone_3 = None, combine_row.Shuttle = None\<rparr>] ! 0)
     \<noteq> draft_row.School
         \<lparr>Year = Some 2010, Round = Some 3, Overall = Some 70, Name = Some ''John Smith'',
          draft_row.School = Some ''Alabama'', Position = Some ''DB'', Team = Some ''BEARS''\<rparr>"
  by (simp add: linker_def link_step_def matching_row_index_def py_eq_def)

text \<open>
  Claim C4, amended. After the Linker pass, for every DraftRecord \<open>d\<close>, every CombineRecord
  \<open>c\<close> with \<open>c.player_name == d.name\<close> and \<open>c.draft_year == d.year\<close> has \<open>c.school\<close>
  equal to \<open>d.school\<close>, provided the last DraftRecord of the table with \<open>d\<close>'s name and
  year carries \<open>d\<close>'s school (as it does when \<open>d\<close> is the only such record, or the last).
\<close>

theorem school_reconciliation:
  assumes "d \<in> set df"
    and "c \<in> set (linker df combine_df)"
    and "matching_row_index d c"
    and "draft_row.School
           (last (filter (\<lambda>d'. py_eq (Name d') (Name d) \<and> py_eq (Year d') (Year d)) df))
         = draft_row.School d"
  shows "combine_row.School c = draft_row.School d"
proof -
  from assms(2) obtain c0 where c0: "c0 \<in> set combine_df" and c: "c = link_row df c0"
    by (auto simp: linker_map)
  from assms(3) c have m: "matching_row_index d c0" by simp
  have same: "filter (\<lambda>d'. matching_row_index d' c0) df
              = filter (\<lambda>d'. py_eq (Name d') (Name d) \<and> py_eq (Year d') (Year d)) df"
    using matching_same_identity[OF m] by simp
  from assms(1) m have "filter (\<lambda>d'. matching_row_index d' c0) df \<noteq> []"
    by (auto simp: filter_empty_conv)
  then obtain x xs where xs: "filter (\<lambda>d'. matching_row_index d' c0) df = x # xs"
    by (cases "filter (\<lambda>d'. matching_row_index d' c0) df") auto
  then have "combine_row.School c = draft_row.School (last (x # xs))"
    by (simp add: c link_row_def)
  with xs same assms(4) show ?thesis by simp
qed

text \<open>The scenario of the specification: Jane Doe, Boston Col. against Boston College.\<close>

theorem school_reconciliation_witness:
  "\<lparr>Year = Some 2015, Round = Some 2, Overall = Some 40, Name = Some ''Jane Doe'',
     draft_row.School = Some ''Boston College'', Position = Some ''QB'',
     Team = Some ''BEARS''\<rparr>
     \<in> set [\<lparr>Year = Some 2015, Round = Some 2, Overall = Some 40, Name = Some ''Jane Doe'',
              draft_row.School = Some ''Boston College'', Position = Some ''QB'',
              Team = Some ''BEARS''\<rparr>]
   \<and> linker
       [\<lparr>Year = Some 2015, Round = Some 2, Overall = Some 40, Name = Some ''Jane Doe'',
         draft_row.School = Some ''Boston College'', Position = Some ''QB'',
         Team = Some ''BEARS''\<rparr>]
       [\<lparr>combine_row.Player = Some ''Jane Doe'', combine_row.School = Some ''Boston Col.'',
         combine_row.draft_year = Some 2015, combine_row.Pos = Some ''QB'',
         combine_row.Ht = Str (ascii ''6-2''), combine_row.Wt = Some 210,
         combine_row.Forty_yd = None, combine_row.Vertical = None,
         combine_row.Bench = None, combine_row.Broad_Jump = None,
         combine_row.Cone_3 = None, combine_row.Shuttle = None\<rparr>]
     = [\<lparr>combine_row.Player = Some ''Jane Doe'', combine_row.School = Some ''Boston College'',
         combine_row.draft_year = Some 2015, combine_row.Pos = Some ''QB'',
         combine_row.Ht = Str (ascii ''6-2''), combine_row.Wt = Some 210,
         combine_row.Forty_yd = None, combine_row.Vertical = None,
         combine_row.Bench = None, combine_row.Broad_Jump = None,
         combine_row.Cone_3 = None, combine_row.Shuttle = None\<rparr>]"
  using school_reconciliation
    [of "\<lparr>Year = Some 2015, Round = Some 2, Overall = Some 40, Name = Some ''Jane Doe'',
          draft_row.School = Some ''Boston College'', Position = Some ''QB'',
          Team = Some ''BEARS''\<rparr>"
        "[\<lparr>Year = Some 2015, Round = Some 2, Overall = Some 40, Name = Some ''Jane Doe'',
           draft_row.School = Some ''Boston College'', Position = Some ''QB'',
           Team = Some ''BEARS''\<rparr>]"
        "\<lparr>combine_row.Player = Some ''Jane Doe'', combine_row.School = Some ''Boston College'',
          combine_row.draft_year = Some 2015, combine_row.Pos = Some ''QB'',
          combine_row.Ht = Str (ascii ''6-2''), combine_row.Wt = Some 210,
          combine_row.Forty_yd = None, combine_row.Vertical = None,
          combine_row.Bench = None, combine_row.Broad_Jump = None,
          combine_row.Cone_3 = None, combine_row.Shuttle = None\<rparr>"
        "[\<lparr>combine_row.Player = Some ''Jane Doe'', combine_row.School = Some ''Boston Col.'',
           combine_row.draft_year = Some 2015, combine_row.Pos = Some ''QB'',
           combine_row.Ht = Str (ascii ''6-2''), combine_row.Wt = Some 210,
           combine_row.Forty_yd = None, combine_row.Vertical = None,
           combine_row.Bench = None, combine_row.Broad_Jump = None,
           combine_row.Cone_3 = None, combine_row.Shuttle = None\<rparr>]"]
  by (simp add: linker_def link_step_def matching_row_index_def py_eq_def)

text \<open>
  Claim C9. The overwrite is last-DraftRecord-wins: a row of \<open>combine_df\<close> that one or more
  draft rows select ends the pass with the school of the last of them in the row order of
  \<open>df\<close>, whatever schools the earlier ones carry, and is otherwise as it was; the pass
  neither adds nor removes rows.
\<close>

theorem linker_last_wins:
  assumes "i < length combine_df"
    and "filter (\<lambda>d. matching_row_index d (combine_df ! i)) df \<noteq> []"
  shows "length (linker df combine_df) = length combine_df
       \<and> linker df combine_df ! i
         = (combine_df ! i)\<lparr>combine_row.School :=
             draft_row.School (last (filter (\<lambda>d. matching_row_index d (combine_df ! i)) df))\<rparr>"
proof -
  from assms(2) obtain x xs
    where "filter (\<lambda>d. matching_row_index d (combine_df ! i)) df = x # xs"
    by (cases "filter (\<lambda>d. matching_row_index d (combine_df ! i)) df") auto
  with assms(1) show ?thesis by (simp add: linker_map link_row_def)
qed

theorem linker_last_wins_witness:
  "(0::nat) < length
       [\<lparr>combine_row.Player = Some ''John Smith'', combine_row.School = Some ''Alabama'',
         combine_row.draft_year = Some 2010, combine_row.Pos = Some ''CB'',
         combine_row.Ht = Str (ascii ''6-0''), combine_row.Wt = Some 195,
         combine_row.Forty_yd = None, combine_row.Vertical = None,
         combine_row.Bench = None, combine_row.Broad_Jump = None,
         combine_row.Cone_3 = None, combine_row.Shuttle = None\<rparr>]
   \<and> combine_row.School
       (linker
        [\<lparr>Year = Some 2010, Round = Some 3, Overall = Some 70, Name = Some ''John Smith'',
          draft_row.School = Some ''Alabama'', Position = Some ''DB'', Team = Some ''BEARS''\<rparr>,
         \<lparr>Year = Some 2010, Round = Some 6, Overall = Some 190, Name = Some ''John Smith'',
          draft_row.School = Some ''Utah'', Position = Some ''WR'', Team = Some ''JETS''\<rparr>]
        [\<lparr>combine_row.Player = Some ''John Smith'', combine_row.School = Some ''Alabama'',
          combine_row.draft_year = Some 2010, combine_row.Pos = Some ''CB'',
          combine_row.Ht = Str (ascii ''6-0''), combine_row.Wt = Some 195,
          combine_row.Forty_yd = None, combine_row.Vertical = None,
          combine_row.Bench = None, combine_row.Broad_Jump = None,
          combine_row.Cone_3 = None, combine_row.Shuttle = None\<rparr>] ! 0)
     = Some ''Utah''"
  using linker_last_wins
    [of 0
        "[\<lparr>combine_row.Player = Some ''John Smith'', combine_row.School = Some ''Alabama'',
           combine_row.draft_year = Some 2010, combine_row.Pos = Some ''CB'',
           combine_row.Ht = Str (ascii ''6-0''), combine_row.Wt = Some 195,
           combine_row.Forty_yd = None, combine_row.Vertical = None,
           combine_row.Bench = None, combine_row.Broad_Jump = None,
           combine_row.Cone_3 = None, combine_row.Shuttle = None\<rparr>]"
        "[\<lparr>Year = Some 2010, Round = Some 3, Overall = Some 70, Name = Some ''John Smith'',
           draft_row.School = Some ''Alabama'', Position = Some ''DB'', Team = Some ''BEARS''\<rparr>,
          \<lparr>Year = Some 2010, Round = Some 6, Overall = Some 190, Name = Some ''John Smith'',
           draft_row.School = Some ''Utah'', Position = Some ''WR'', Team = Some ''JETS''\<rparr>]"]
  by (simp add: matching_row_index_def py_eq_def)

section \<open>Join and deduplication\<close>

lemma subset_cols_matched [simp]: "subset_cols (matched l r) = subset_cols l"
  by (simp add: subset_cols_def matched_def draft_row.defs)

lemma subset_cols_unmatched [simp]: "subset_cols (unmatched l) = subset_cols l"
  by (simp add: subset_cols_def unmatched_def draft_row.defs)

lemma subset_cols_drop_row [simp]: "subset_cols (drop_row m) = subset_cols m"
  by (simp add: subset_cols_def drop_row_def draft_row.defs)

text \<open>Every left row gives at least one merged row, and all of them carry its key.\<close>

lemma join_row_keys: "set (map subset_cols (join_row right l)) = {subset_cols l}"
  by (auto simp: join_row_def split: list.splits)

lemma merge_keys: "set (map subset_cols (drop_cols (merge left right))) = subset_cols ` set left"
proof -
  have "set (map subset_cols (drop_cols (merge left right)))
        = (\<Union>l\<in>set left. set (map subset_cols (join_row right l)))"
    by (auto simp: merge_def drop_cols_def)
  also have "\<dots> = subset_cols ` set left"
    unfolding join_row_keys by auto
  finally show ?thesis .
qed

lemma keys_drop_duplicates_from:
  "set (map subset_cols (drop_duplicates_from seen rs)) = set (map subset_cols rs) - set seen"
  by (induction seen rs rule: drop_duplicates_from.induct) auto

lemma distinct_drop_duplicates_from:
  "distinct (map subset_cols (drop_duplicates_from seen rs))"
proof (induction seen rs rule: drop_duplicates_from.induct)
  case (1 seen)
  show ?case by simp
next
  case (2 seen r rs)
  have "subset_cols r \<notin> set (map subset_cols (drop_duplicates_from (subset_cols r # seen) rs))"
    unfolding keys_drop_duplicates_from by simp
  with 2 show ?case by simp
qed

lemma set_drop_duplicates_from: "set (drop_duplicates_from seen rs) \<subseteq> set rs"
  by (induction seen rs rule: drop_duplicates_from.induct) auto

text \<open>The rows that survive, by position: those whose key no earlier row and no seen key has.\<close>

lemma drop_duplicates_from_positions:
  "drop_duplicates_from seen rs =
     map (\<lambda>i. rs ! i)
       (filter (\<lambda>i. subset_cols (rs ! i) \<notin> set seen
                    \<and> (\<forall>j<i. subset_cols (rs ! j) \<noteq> subset_cols (rs ! i)))
          [0..<length rs])"
proof (induction seen rs rule: drop_duplicates_from.induct)
  case (1 seen)
  show ?case by simp
next
  case (2 seen r rs)
  have upt: "[0..<length (r # rs)] = 0 # map Suc [0..<length rs]"
    by (simp add: upt_conv_Cons map_Suc_upt del: upt_Suc)
  have later: "(\<forall>j<Suc i. subset_cols ((r # rs) ! j) \<noteq> k)
      \<longleftrightarrow> (subset_cols r \<noteq> k \<and> (\<forall>j<i. subset_cols (rs ! j) \<noteq> k))" for i k
    by (auto simp: less_Suc_eq_0_disj)
  show ?case
  proof (cases "subset_cols r \<in> set seen")
    case True
    have "filter (\<lambda>i. subset_cols (rs ! i) \<notin> set seen
                   \<and> (\<forall>j<i. subset_cols (rs ! j) \<noteq> subset_cols (rs ! i))) [0..<length rs]
        = filter (\<lambda>i. subset_cols (rs ! i) \<notin> set seen \<and> subset_cols r \<noteq> subset_cols (rs ! i)
                   \<and> (\<forall>j<i. subset_cols (rs ! j) \<noteq> subset_cols (rs ! i))) [0..<length rs]"
      using True by (intro filter_cong) auto
    with True 2 show ?thesis
      unfolding upt by (simp add: filter_map o_def later)
  next
    case False
    have "filter (\<lambda>i. subset_cols (rs ! i) \<notin> set (subset_cols r # seen)
                   \<and> (\<forall>j<i. subset_cols (rs ! j) \<noteq> subset_cols (rs ! i))) [0..<length rs]
        = filter (\<lambda>i. subset_cols (rs ! i) \<notin> set seen \<and> subset_cols r \<noteq> subset_cols (rs ! i)
                   \<and> (\<forall>j<i. subset_cols (rs ! j) \<noteq> subset_cols (rs ! i))) [0..<length rs]"
      by (intro filter_cong) auto
    with False 2 show ?thesis
      unfolding upt by (simp add: filter_map o_def later)
  qed
qed

lemma earlier_key_conv:
  assumes "i \<le> length rs"
  shows "(k \<notin> subset_cols ` set (take i rs)) = (\<forall>j<i. subset_cols (rs ! j) \<noteq> k)"
proof -
  have "set (take i rs) = {rs ! j | j. j < i}"
    using assms by (fastforce simp: in_set_conv_nth)
  then show ?thesis by auto
qed

lemma count_key_distinct:
  "distinct (map f xs) \<Longrightarrow>
   length (filter (\<lambda>x. f x = k) xs) = (if k \<in> f ` set xs then 1 else 0)"
  by (induction xs) auto

text \<open>
  Claim C1. Join completeness and uniqueness of the output keys: after the left join and
  the deduplication, the keys \<open>(Name, School, Year)\<close> of the output rows are pairwise
  different and are exactly the keys occurring in the draft frame; so the number of output
  rows is the number of distinct keys of the draft frame, and every such key occurs in the
  output exactly once, whatever the fan-out of the join was.
\<close>

theorem join_completeness:
  "distinct (map subset_cols (drop_duplicates (drop_cols (merge df combine_df))))
   \<and> set (map subset_cols (drop_duplicates (drop_cols (merge df combine_df))))
       = set (map subset_cols df)
   \<and> length (drop_duplicates (drop_cols (merge df combine_df))) = card (set (map subset_cols df))
   \<and> (\<forall>k \<in> set (map subset_cols df).
         length (filter (\<lambda>r. subset_cols r = k) (drop_duplicates (drop_cols (merge df combine_df))))
         = 1)"
proof -
  let ?out = "drop_duplicates (drop_cols (merge df combine_df))"
  have d: "distinct (map subset_cols ?out)"
    by (simp add: drop_duplicates_def distinct_drop_duplicates_from)
  have s: "set (map subset_cols ?out) = set (map subset_cols df)"
    unfolding drop_duplicates_def keys_drop_duplicates_from merge_keys by simp
  have "length ?out = length (map subset_cols ?out)" by simp
  also have "\<dots> = card (set (map subset_cols ?out))"
    using d by (simp only: distinct_card)
  finally have l: "length ?out = card (set (map subset_cols df))"
    using s by simp
  have "length (filter (\<lambda>r. subset_cols r = k) ?out) = 1" if "k \<in> set (map subset_cols df)" for k
    using count_key_distinct[OF d, of k] that s by auto
  with d s l show ?thesis by blast
qed

text \<open>Two draft rows, the first matched by two Combine rows: three merged rows, two kept.\<close>

theorem join_completeness_witness:
  "length (merge
     [\<lparr>Year = Some 2000, Round = Some 1, Overall = Some 5, Name = Some ''Al Ace'',
       draft_row.School = Some ''Iowa'', Position = Some ''QB'', Team = Some ''BEARS''\<rparr>,
      \<lparr>Year = Some 2001, Round = Some 2, Overall = Some 40, Name = Some ''Bo Best'',
       draft_row.School = Some ''Iowa'', Position = Some ''T'', Team = Some ''JETS''\<rparr>]
     [\<lparr>combine_row.Player = Some ''Al Ace'', combine_row.School = Some ''Iowa'',
       combine_row.draft_year = Some 2000, combine_row.Pos = Some ''QB'',
       combine_row.Ht = Str (ascii ''6-2''), combine_row.Wt = Some 215,
       combine_row.Forty_yd = None, combine_row.Vertical = None,
       combine_row.Bench = None, combine_row.Broad_Jump = None,
       combine_row.Cone_3 = None, combine_row.Shuttle = None\<rparr>,
      \<lparr>combine_row.Player = Some ''Al Ace'', combine_row.School = Some ''Iowa'',
       combine_row.draft_year = Some 2000, combine_row.Pos = Some ''WR'',
       combine_row.Ht = Str (ascii ''5-11''), combine_row.Wt = Some 190,
       combine_row.Forty_yd = None, combine_row.Vertical = None,
       combine_row.Bench = None, combine_row.Broad_Jump = None,
       combine_row.Cone_3 = None, combine_row.Shuttle = None\<rparr>]) = 3
   \<and> length (drop_duplicates (drop_cols (merge
     [\<lparr>Year = Some 2000, Round = Some 1, Overall = Some 5, Name = Some ''Al Ace'',
       draft_row.School = Some ''Iowa'', Position = Some ''QB'', Team = Some ''BEARS''\<rparr>,
      \<lparr>Year = Some 2001, Round = Some 2, Overall = Some 40, Name = Some ''Bo Best'',
       draft_row.School = Some ''Iowa'', Position = Some ''T'', Team = Some ''JETS''\<rparr>]
     [\<lparr>combine_row.Player = Some ''Al Ace'', combine_row.School = Some ''Iowa'',
       combine_row.draft_year = Some 2000, combine_row.Pos = Some ''QB'',
       combine_row.Ht = Str (ascii ''6-2''), combine_row.Wt = Some 215,
       combine_row.Forty_yd = None, combine_row.Vertical = None,
       combine_row.Bench = None, combine_row.Broad_Jump = None,
       combine_row.Cone_3 = None, combine_row.Shuttle = None\<rparr>,
      \<lparr>combine_row.Player = Some ''Al Ace'', combine_row.School = Some ''Iowa'',
       combine_row.draft_year = Some 2000, combine_row.Pos = Some ''WR'',
       combine_row.Ht = Str (ascii ''5-11''), combine_row.Wt = Some 190,
       combine_row.Forty_yd = None, combine_row.Vertical = None,
       combine_row.Bench = None, combine_row.Broad_Jump = None,
       combine_row.Cone_3 = None, combine_row.Shuttle = None\<rparr>]))) = 2
   \<and> card (set (map subset_cols
     [\<lparr>Year = Some 2000, Round = Some 1, Overall = Some 5, Name = Some ''Al Ace'',
       draft_row.School = Some ''Iowa'', Position = Some ''QB'', Team = Some ''BEARS''\<rparr>,
      \<lparr>Year = Some 2001, Round = Some 2, Overall = Some 40, Name = Some ''Bo Best'',
       draft_row.School = Some ''Iowa'', Position = Some ''T'', Team = Some ''JETS''\<rparr>])) = 2"
  using join_completeness
    [of "[\<lparr>Year = Some 2000, Round = Some 1, Overall = Some 5, Name = Some ''Al Ace'',
           draft_row.School = Some ''Iowa'', Position = Some ''QB'', Team = Some ''BEARS''\<rparr>,
          \<lparr>Year = Some 2001, Round = Some 2, Overall = Some 40, Name = Some ''Bo Best'',
           draft_row.School = Some ''Iowa'', Position = Some ''T'', Team = Some ''JETS''\<rparr>]"
        "[\<lparr>combine_row.Player = Some ''Al Ace'', combine_row.School = Some ''Iowa'',
           combine_row.draft_year = Some 2000, combine_row.Pos = Some ''QB'',
           combine_row.Ht = Str (ascii ''6-2''), combine_row.Wt = Some 215,
           combine_row.Forty_yd = None, combine_row.Vertical = None,
           combine_row.Bench = None, combine_row.Broad_Jump = None,
           combine_row.Cone_3 = None, combine_row.Shuttle = None\<rparr>,
          \<lparr>combine_row.Player = Some ''Al Ace'', combine_row.School = Some ''Iowa'',
           combine_row.draft_year = Some 2000, combine_row.Pos = Some ''WR'',
           combine_row.Ht = Str (ascii ''5-11''), combine_row.Wt = Some 190,
           combine_row.Forty_yd = None, combine_row.Vertical = None,
           combine_row.Bench = None, combine_row.Broad_Jump = None,
           combine_row.Cone_3 = None, combine_row.Shuttle = None\<rparr>]"]
  by (simp add: merge_def join_row_def key_match_def subset_cols_def)

text \<open>
  Claim C2. Deduplication is first-wins: the rows kept are, in their original order,
  exactly the rows whose key occurs in no earlier row of the merged frame. Of the rows
  sharing a key the first is kept and the others are dropped; the result is a function of
  the frame and its row order alone.
\<close>

theorem drop_duplicates_first_wins:
  "drop_duplicates rows =
     map (\<lambda>i. rows ! i)
       (filter (\<lambda>i. subset_cols (rows ! i) \<notin> set (map subset_cols (take i rows)))
          [0..<length rows])"
proof -
  have "filter (\<lambda>i. subset_cols (rows ! i) \<notin> set (map subset_cols (take i rows))) [0..<length rows]
      = filter (\<lambda>i. subset_cols (rows ! i) \<notin> set []
                  \<and> (\<forall>j<i. subset_cols (rows ! j) \<noteq> subset_cols (rows ! i))) [0..<length rows]"
    by (intro filter_cong) (simp_all add: earlier_key_conv)
  then show ?thesis
    by (simp only: drop_duplicates_def drop_duplicates_from_positions)
qed

text \<open>
  Two rows with the key of Al Ace and different measurements, then another player: the
  first of the two is the one kept.
\<close>

theorem drop_duplicates_first_wins_witness:
  "drop_duplicates
     [\<lparr>Year = Some 2000, Round = Some 1, Overall = Some 5, Name = Some ''Al Ace'',
       draft_row.School = Some ''Iowa'', Position = Some ''QB'', Team = Some ''BEARS'',
       pruned_row.Ht = Str (ascii ''6-2''), pruned_row.Wt = Some 215,
       pruned_row.Forty_yd = None, pruned_row.Vertical = None,
       pruned_row.Bench = None, pruned_row.Broad_Jump = None,
       pruned_row.Cone_3 = None, pruned_row.Shuttle = None\<rparr>,
      \<lparr>Year = Some 2000, Round = Some 1, Overall = Some 5, Name = Some ''Al Ace'',
       draft_row.School = Some ''Iowa'', Position = Some ''QB'', Team = Some ''BEARS'',
       pruned_row.Ht = Str (ascii ''5-11''), pruned_row.Wt = Some 190,
       pruned_row.Forty_yd = None, pruned_row.Vertical = None,
       pruned_row.Bench = None, pruned_row.Broad_Jump = None,
       pruned_row.Cone_3 = None, pruned_row.Shuttle = None\<rparr>,
      \<lparr>Year = Some 2001, Round = Some 2, Overall = Some 40, Name = Some ''Bo Best'',
       draft_row.School = Some ''Iowa'', Position = Some ''T'', Team = Some ''JETS'',
       pruned_row.Ht = NaN, pruned_row.Wt = None,
       pruned_row.Forty_yd = None, pruned_row.Vertical = None,
       pruned_row.Bench = None, pruned_row.Broad_Jump = None,
       pruned_row.Cone_3 = None, pruned_row.Shuttle = None\<rparr>]
   = [\<lparr>Year = Some 2000, Round = Some 1, Overall = Some 5, Name = Some ''Al Ace'',
       draft_row.School = Some ''Iowa'', Position = Some ''QB'', Team = Some ''BEARS'',
       pruned_row.Ht = Str (ascii ''6-2''), pruned_row.Wt = Some 215,
       pruned_row.Forty_yd = None, pruned_row.Vertical = None,
       pruned_row.Bench = None, pruned_row.Broad_Jump = None,
       pruned_row.Cone_3 = None, pruned_row.Shuttle = None\<rparr>,
      \<lparr>Year = Some 2001, Round = Some 2, Overall = Some 40, Name = Some ''Bo Best'',
       draft_row.School = Some ''Iowa'', Position = Some ''T'', Team = Some ''JETS'',
       pruned_row.Ht = NaN, pruned_row.Wt = None,
       pruned_row.Forty_yd = None, pruned_row.Vertical = None,
       pruned_row.Bench = None, pruned_row.Broad_Jump = None,
       pruned_row.Cone_3 = None, pruned_row.Shuttle = None\<rparr>]"
  using drop_duplicates_first_wins
    [of "[\<lparr>Year = Some 2000, Round = Some 1, Overall = Some 5, Name = Some ''Al Ace'',
           draft_row.School = Some ''Iowa'', Position = Some ''QB'', Team = Some ''BEARS'',
           pruned_row.Ht = Str (ascii ''6-2''), pruned_row.Wt = Some 215,
           pruned_row.Forty_yd = None, pruned_row.Vertical = None,
           pruned_row.Bench = None, pruned_row.Broad_Jump = None,
           pruned_row.Cone_3 = None, pruned_row.Shuttle = None\<rparr>,
          \<lparr>Year = Some 2000, Round = Some 1, Overall = Some 5, Name = Some ''Al Ace'',
           draft_row.School = Some ''Iowa'', Position = Some ''QB'', Team = Some ''BEARS'',
           pruned_row.Ht = Str (ascii ''5-11''), pruned_row.Wt = Some 190,
           pruned_row.Forty_yd = None, pruned_row.Vertical = None,
           pruned_row.Bench = None, pruned_row.Broad_Jump = None,
           pruned_row.Cone_3 = None, pruned_row.Shuttle = None\<rparr>,
          \<lparr>Year = Some 2001, Round = Some 2, Overall = Some 40, Name = Some ''Bo Best'',
           draft_row.School = Some ''Iowa'', Position = Some ''T'', Team = Some ''JETS'',
           pruned_row.Ht = NaN, pruned_row.Wt = None,
           pruned_row.Forty_yd = None, pruned_row.Vertical = None,
           pruned_row.Bench = None, pruned_row.Broad_Jump = None,
           pruned_row.Cone_3 = None, pruned_row.Shuttle = None\<rparr>]"]
  by (simp add: drop_duplicates_def subset_cols_def)

text \<open>
  Claim C3. Left-join correctness: the Merger performs a left outer join of the draft
  frame to the Combine frame on \<open>(Name, School, Year) = (Player, School, draft_year)\<close>.
  At its place in the merged frame a draft row contributes one row for each Combine row
  with its key, in the order of the Combine frame, carrying the draft row's own columns
  and that Combine row's columns. A draft row that no Combine row matches contributes
  exactly one row, whose draft columns are those of the draft row and whose Combine
  columns, the eight measurements among them, are all missing.
\<close>

theorem left_join:
  "merge (xs @ d # ys) combine_df
     = merge xs combine_df
       @ (if filter (key_match d) combine_df = [] then [unmatched d]
          else map (matched d) (filter (key_match d) combine_df))
       @ merge ys combine_df
   \<and> key_match d c
       = (Name d = combine_row.Player c \<and> draft_row.School d = combine_row.School c
          \<and> Year d = combine_row.draft_year c)
   \<and> draft_row.truncate (unmatched d) = d
   \<and> merged_row.Player (unmatched d) = None
   \<and> merged_row.draft_year (unmatched d) = None
   \<and> merged_row.Pos (unmatched d) = None
   \<and> merged_row.Ht (unmatched d) = NaN
   \<and> merged_row.Wt (unmatched d) = None
   \<and> merged_row.Forty_yd (unmatched d) = None
   \<and> merged_row.Vertical (unmatched d) = None
   \<and> merged_row.Bench (unmatched d) = None
   \<and> merged_row.Broad_Jump (unmatched d) = None
   \<and> merged_row.Cone_3 (unmatched d) = None
   \<and> merged_row.Shuttle (unmatched d) = None
   \<and> draft_row.truncate (matched d c) = d
   \<and> merged_row.Player (matched d c) = combine_row.Player c
   \<and> merged_row.draft_year (matched d c) = combine_row.draft_year c
   \<and> merged_row.Pos (matched d c) = combine_row.Pos c
   \<and> merged_row.Ht (matched d c) = combine_row.Ht c
   \<and> merged_row.Wt (matched d c) = combine_row.Wt c
   \<and> merged_row.Forty_yd (matched d c) = combine_row.Forty_yd c
   \<and> merged_row.Vertical (matched d c) = combine_row.Vertical c
   \<and> merged_row.Bench (matched d c) = combine_row.Bench c
   \<and> merged_row.Broad_Jump (matched d c) = combine_row.Broad_Jump c
   \<and> merged_row.Cone_3 (matched d c) = combine_row.Cone_3 c
   \<and> merged_row.Shuttle (matched d c) = combine_row.Shuttle c"
proof -
  have "join_row combine_df d
        = (if filter (key_match d) combine_df = [] then [unmatched d]
           else map (matched d) (filter (key_match d) combine_df))"
    by (simp add: join_row_def split: list.splits)
  then have "merge (xs @ d # ys) combine_df
     = merge xs combine_df
       @ (if filter (key_match d) combine_df = [] then [unmatched d]
          else map (matched d) (filter (key_match d) combine_df))
       @ merge ys combine_df"
    by (simp add: merge_def)
  then show ?thesis
    by (simp add: key_match_def unmatched_def matched_def draft_row.defs)
qed

text \<open>
  The end-to-end scenario of the specification, with a second Combine row for the draft of
  2000: two merged rows for 2000 with the measurements of either Combine row, and one for
  2001 without any.
\<close>

theorem left_join_witness:
  "merge
     [\<lparr>Year = Some 2000, Round = Some 1, Overall = Some 5, Name = Some ''Al Ace'',
       draft_row.School = Some ''Iowa'', Position = Some ''QB'', Team = Some ''BEARS''\<rparr>,
      \<lparr>Year = Some 2001, Round = Some 2, Overall = Some 40, Name = Some ''Bo Best'',
       draft_row.School = Some ''Iowa'', Position = Some ''T'', Team = Some ''JETS''\<rparr>]
     [\<lparr>combine_row.Player = Some ''Al Ace'', combine_row.School = Some ''Iowa'',
       combine_row.draft_year = Some 2000, combine_row.Pos = Some ''QB'',
       combine_row.Ht = Str (ascii ''6-2''), combine_row.Wt = Some 215,
       combine_row.Forty_yd = None, combine_row.Vertical = None,
       combine_row.Bench = None, combine_row.Broad_Jump = None,
       combine_row.Cone_3 = None, combine_row.Shuttle = None\<rparr>,
      \<lparr>combine_row.Player = Some ''Al Ace'', combine_row.School = Some ''Iowa'',
       combine_row.draft_year = Some 2000, combine_row.Pos = Some ''WR'',
       combine_row.Ht = Str (ascii ''5-11''), combine_row.Wt = Some 190,
       combine_row.Forty_yd = None, combine_row.Vertical = None,
       combine_row.Bench = None, combine_row.Broad_Jump = None,
       combine_row.Cone_3 = None, combine_row.Shuttle = None\<rparr>]
   = [\<lparr>Year = Some 2000, Round = Some 1, Overall = Some 5, Name = Some ''Al Ace'',
       draft_row.School = Some ''Iowa'', Position = Some ''QB'', Team = Some ''BEARS'',
       merged_row.Player = Some ''Al Ace'', merged_row.draft_year = Some 2000,
       merged_row.Pos = Some ''QB'', merged_row.Ht = Str (ascii ''6-2''), merged_row.Wt = Some 215,
       merged_row.Forty_yd = None, merged_row.Vertical = None,
       merged_row.Bench = None, merged_row.Broad_Jump = None,
       merged_row.Cone_3 = None, merged_row.Shuttle = None\<rparr>,
      \<lparr>Year = Some 2000, Round = Some 1, Overall = Some 5, Name = Some ''Al Ace'',
       draft_row.School = Some ''Iowa'', Position = Some ''QB'', Team = Some ''BEARS'',
       merged_row.Player = Some ''Al Ace'', merged_row.draft_year = Some 2000,
       merged_row.Pos = Some ''WR'', merged_row.Ht = Str (ascii ''5-11''), merged_row.Wt = Some 190,
       merged_row.Forty_yd = None, merged_row.Vertical = None,
       merged_row.Bench = None, merged_row.Broad_Jump = None,
       merged_row.Cone_3 = None, merged_row.Shuttle = None\<rparr>,
      \<lparr>Year = Some 2001, Round = Some 2, Overall = Some 40, Name = Some ''Bo Best'',
       draft_row.School = Some ''Iowa'', Position = Some ''T'', Team = Some ''JETS'',
       merged_row.Player = None, merged_row.draft_year = None,
       merged_row.Pos = None, merged_row.Ht = NaN, merged_row.Wt = None,
       merged_row.Forty_yd = None, merged_row.Vertical = None,
       merged_row.Bench = None, merged_row.Broad_Jump = None,
       merged_row.Cone_3 = None, merged_row.Shuttle = None\<rparr>]"
  using left_join
    [of "[]"
        "\<lparr>Year = Some 2000, Round = Some 1, Overall = Some 5, Name = Some ''Al Ace'',
          draft_row.School = Some ''Iowa'', Position = Some ''QB'', Team = Some ''BEARS''\<rparr>"
        "[\<lparr>Year = Some 2001, Round = Some 2, Overall = Some 40, Name = Some ''Bo Best'',
           draft_row.School = Some ''Iowa'', Position = Some ''T'', Team = Some ''JETS''\<rparr>]"
        "[\<lparr>combine_row.Player = Some ''Al Ace'', combine_row.School = Some ''Iowa'',
          combine_row.draft_year = Some 2000, combine_row.Pos = Some ''QB'',
          combine_row.Ht = Str (ascii ''6-2''), combine_row.Wt = Some 215,
          combine_row.Forty_yd = None, combine_row.Vertical = None,
          combine_row.Bench = None, combine_row.Broad_Jump = None,
          combine_row.Cone_3 = None, combine_row.Shuttle = None\<rparr>,
         \<lparr>combine_row.Player = Some ''Al Ace'', combine_row.School = Some ''Iowa'',
          combine_row.draft_year = Some 2000, combine_row.Pos = Some ''WR'',
          combine_row.Ht = Str (ascii ''5-11''), combine_row.Wt = Some 190,
          combine_row.Forty_yd = None, combine_row.Vertical = None,
          combine_row.Bench = None, combine_row.Broad_Jump = None,
          combine_row.Cone_3 = None, combine_row.Shuttle = None\<rparr>]"]
    left_join
    [of "[\<lparr>Year = Some 2000, Round = Some 1, Overall = Some 5, Name = Some ''Al Ace'',
           draft_row.School = Some ''Iowa'', Position = Some ''QB'', Team = Some ''BEARS''\<rparr>]"
        "\<lparr>Year = Some 2001, Round = Some 2, Overall = Some 40, Name = Some ''Bo Best'',
          draft_row.School = Some ''Iowa'', Position = Some ''T'', Team = Some ''JETS''\<rparr>"
        "[]"
        "[\<lparr>combine_row.Player = Some ''Al Ace'', combine_row.School = Some ''Iowa'',
          combine_row.draft_year = Some 2000, combine_row.Pos = Some ''QB'',
          combine_row.Ht = Str (ascii ''6-2''), combine_row.Wt = Some 215,
          combine_row.Forty_yd = None, combine_row.Vertical = None,
          combine_row.Bench = None, combine_row.Broad_Jump = None,
          combine_row.Cone_3 = None, combine_row.Shuttle = None\<rparr>,
         \<lparr>combine_row.Player = Some ''Al Ace'', combine_row.School = Some ''Iowa'',
          combine_row.draft_year = Some 2000, combine_row.Pos = Some ''WR'',
          combine_row.Ht = Str (ascii ''5-11''), combine_row.Wt = Some 190,
          combine_row.Forty_yd = None, combine_row.Vertical = None,
          combine_row.Bench = None, combine_row.Broad_Jump = None,
          combine_row.Cone_3 = None, combine_row.Shuttle = None\<rparr>]"]
  by (simp add: merge_def join_row_def key_match_def matched_def unmatched_def
        draft_row.defs)

section \<open>Height decoding\<close>

text \<open>Splitting: there is always a field, and no field holds the separator.\<close>

lemma split_not_Nil [simp]: "split c s \<noteq> []"
  by (induction s) (auto split: list.splits)

lemma split_no_sep: "p \<in> set (split c s) \<Longrightarrow> c \<notin> set p"
proof (induction s arbitrary: p)
  case Nil
  then show ?case by simp
next
  case (Cons x s)
  then show ?case by (cases "split c s") (auto split: if_splits)
qed

lemma split_single: "c \<notin> set s \<Longrightarrow> split c s = [s]"
  by (induction s) auto

lemma split_append: "c \<notin> set f \<Longrightarrow> split c (f @ c # i) = f # split c i"
  by (induction f) auto

lemma underscore_not_digit [simp]: "\<not> is_digit 95"
  by (simp add: is_digit_def)

lemma tail_ok_Nil [simp]: "tail_ok []"
  by (simp add: tail_ok_def)

lemma tail_ok_digit: "is_digit c \<Longrightarrow> tail_ok (c # cs) = tail_ok cs"
  by (cases "split 95 cs") (auto simp: tail_ok_def)

lemma tail_ok_underscore: "tail_ok (95 # cs) = unsigned_literal cs"
  by (simp add: tail_ok_def unsigned_literal_def)

lemma tail_ok_other: "\<not> is_digit c \<Longrightarrow> c \<noteq> 95 \<Longrightarrow> \<not> tail_ok (c # cs)"
  by (cases "split 95 cs") (auto simp: tail_ok_def)

lemma unsigned_literal_Nil [simp]: "\<not> unsigned_literal []"
  by (simp add: unsigned_literal_def digits_only_def)

lemma unsigned_literal_Cons:
  "unsigned_literal (c # cs) = (is_digit c \<and> tail_ok cs)"
  by (cases "split 95 cs") (auto simp: unsigned_literal_def tail_ok_def digits_only_def)

lemma digits_from_spec:
  "digits_from acc s =
     (if tail_ok s then Inr (foldl (\<lambda>a c. a * 10 + digit_val c) acc (filter is_digit s))
      else Inl ValueError)"
proof (induction acc s rule: digits_from.induct)
  case (1 acc)
  show ?case by simp
next
  case (2 acc c cs)
  show ?case
  proof (cases "is_digit c")
    case True
    with 2 show ?thesis by (simp add: tail_ok_digit)
  next
    case nd: False
    show ?thesis
    proof (cases "c = 95")
      case False
      with nd show ?thesis by (simp add: tail_ok_other)
    next
      case True
      show ?thesis
      proof (cases cs)
        case Nil
        with True show ?thesis by (simp add: tail_ok_underscore)
      next
        case (Cons d ds)
        with True nd 2 show ?thesis
          by (simp add: tail_ok_underscore unsigned_literal_Cons)
      qed
    qed
  qed
qed

lemma unsigned_spec:
  "unsigned I s =
     (if unsigned_literal s \<and> \<not> exceeds_limit I (length (filter is_digit s))
      then Inr (decimal (filter is_digit s)) else Inl ValueError)"
  by (cases s) (simp_all add: unsigned_def digits_from_spec unsigned_literal_Cons decimal_def)

lemma filter_dropWhile_disjoint:
  "(\<And>c. P c \<Longrightarrow> \<not> Q c) \<Longrightarrow> filter Q (dropWhile P s) = filter Q s"
  by (induction s) auto

lemma space_not_digit: "py_isspace c \<Longrightarrow> \<not> is_digit c"
  by (auto simp: py_isspace_def is_digit_def)

lemma filter_digit_strip: "filter is_digit (strip s) = filter is_digit s"
proof -
  have "filter is_digit (strip s)
        = rev (filter is_digit (dropWhile py_isspace (rev (dropWhile py_isspace s))))"
    by (simp add: strip_def rev_filter)
  also have "\<dots> = rev (filter is_digit (rev (dropWhile py_isspace s)))"
    by (simp add: filter_dropWhile_disjoint space_not_digit)
  also have "\<dots> = filter is_digit (dropWhile py_isspace s)"
    by (simp add: rev_filter)
  also have "\<dots> = filter is_digit s"
    by (simp add: filter_dropWhile_disjoint space_not_digit)
  finally show ?thesis .
qed

lemma set_strip: "set (strip s) \<subseteq> set s"
proof -
  have "set (strip s) \<subseteq> set (dropWhile py_isspace s)"
    unfolding strip_def using set_dropWhileD by fastforce
  also have "\<dots> \<subseteq> set s"
    using set_dropWhileD by fastforce
  finally show ?thesis .
qed

text \<open>Rewriting into ASCII brings in blanks, digits and question marks, but no dash.\<close>

lemma transform_no_dash: "45 \<notin> set s \<Longrightarrow> 45 \<notin> set (transform I s)"
  by (induction s) (auto split: option.splits)

lemma to_ascii_no_dash: "45 \<notin> set s \<Longrightarrow> 45 \<notin> set (to_ascii I s)"
  by (simp add: to_ascii_def transform_no_dash)

lemma py_int_spec:
  assumes "45 \<notin> set s"
  shows "py_int I s = (if int_literal I s then Inr (literal_value I s) else Inl ValueError)"
proof (cases "strip (to_ascii I s)")
  case Nil
  then show ?thesis by (simp add: py_int_def int_literal_def)
next
  case (Cons c cs)
  have "c \<noteq> 45"
    using to_ascii_no_dash[OF assms, of I] set_strip[of "to_ascii I s"] Cons by auto
  moreover have "filter is_digit (c # cs) = filter is_digit (to_ascii I s)"
    using filter_digit_strip[of "to_ascii I s"] Cons by simp
  moreover have "\<not> is_digit 43"
    by (simp add: is_digit_def)
  ultimately show ?thesis using Cons
    by (auto simp: py_int_def int_literal_def literal_value_def unsigned_spec)
qed

lemma convert_height_inches_spec:
  "convert_height_inches I h =
     (case h of
        Str s \<Rightarrow>
          (case split 45 s of
             [f, i] \<Rightarrow> if int_literal I f \<and> int_literal I i
                       then Some (literal_value I f * 12 + literal_value I i) else None
           | _ \<Rightarrow> None)
      | _ \<Rightarrow> None)"
proof (cases h)
  case (Str s)
  show ?thesis
  proof (cases "\<exists>f i. split 45 s = [f, i]")
    case True
    then obtain f i where fi: "split 45 s = [f, i]" by blast
    have "45 \<notin> set f" "45 \<notin> set i"
      using split_no_sep[of f 45 s] split_no_sep[of i 45 s] fi by auto
    then show ?thesis using Str fi
      by (simp add: convert_height_inches_def py_int_spec)
  next
    case False
    then show ?thesis using Str
      by (auto simp: convert_height_inches_def split: list.splits sum.splits)
  qed
qed (simp_all add: convert_height_inches_def)

lemma dropWhile_id: "s = [] \<or> \<not> P (hd s) \<Longrightarrow> dropWhile P s = s"
  by (cases s) auto

lemma digits_only_facts:
  assumes "digits_only f"
  shows "to_ascii I f = f" and "strip f = f" and "hd f \<noteq> 43" and "95 \<notin> set f"
    and "45 \<notin> set f" and "filter is_digit f = f"
proof -
  from assms have ne: "f \<noteq> []" and all: "\<forall>c\<in>set f. is_digit c"
    by (simp_all add: digits_only_def list_all_iff)
  have nd: "\<not> is_digit 43" "\<not> is_digit 95" "\<not> is_digit 45"
    by (simp_all add: is_digit_def)
  from ne all have "is_digit (hd f)" "is_digit (last f)" by simp_all
  then have h: "\<not> py_isspace (hd f)" and l: "\<not> py_isspace (hd (rev f))"
    using space_not_digit ne by (auto simp: hd_rev)
  from all have "\<forall>c\<in>set f. c < 128" by (auto simp: is_digit_def)
  then show "to_ascii I f = f" by (simp add: to_ascii_def list_all_iff)
  show "strip f = f" unfolding strip_def
    using h l by (simp add: dropWhile_id)
  show "hd f \<noteq> 43" using \<open>is_digit (hd f)\<close> nd by auto
  show "95 \<notin> set f" using all nd by auto
  show "45 \<notin> set f" using all nd by auto
  show "filter is_digit f = f" using all by simp
qed

lemma digits_only_literal:
  assumes "digits_only f"
  shows "int_literal I f = (\<not> exceeds_limit I (length f))" and "literal_value I f = decimal f"
  using assms digits_only_facts[OF assms]
  by (simp_all add: int_literal_def literal_value_def unsigned_literal_def split_single)

lemma convert_height_inches_plain:
  assumes "digits_only f" "digits_only i"
  shows "convert_height_inches I (Str (f @ 45 # i)) =
           (if exceeds_limit I (length f) \<or> exceeds_limit I (length i) then None
            else Some (decimal f * 12 + decimal i))"
proof -
  have "split 45 (f @ 45 # i) = [f, i]"
    using digits_only_facts(5)[OF assms(1)] digits_only_facts(5)[OF assms(2)]
    by (simp add: split_append split_single)
  then show ?thesis
    unfolding convert_height_inches_spec
    using digits_only_literal[OF assms(1), of I] digits_only_literal[OF assms(2), of I]
    by simp
qed

text \<open>A height that decodes has exactly one dash.\<close>

lemma split_two: "split c s = [f, i] \<Longrightarrow> s = f @ c # i \<and> c \<notin> set f \<and> c \<notin> set i"
proof (induction s arbitrary: f)
  case Nil
  then show ?case by simp
next
  case (Cons x s)
  show ?case
  proof (cases "x = c")
    case True
    with Cons.prems have "f = []" "split c s = [i]" by simp_all
    moreover from \<open>split c s = [i]\<close> have "s = i \<and> c \<notin> set i"
    proof (induction s arbitrary: i)
      case Nil
      then show ?case by simp
    next
      case (Cons y s)
      then show ?case by (cases "split c s") (auto split: if_splits)
    qed
    ultimately show ?thesis using True by simp
  next
    case False
    with Cons.prems obtain f' where "split c s = [f', i]" "f = x # f'"
      by (cases "split c s") (auto split: if_splits)
    with Cons.IH[of f'] False show ?thesis by simp
  qed
qed

lemma convert_height_inches_shape:
  assumes "convert_height_inches I h = Some n"
  shows "\<exists>f i. h = Str (f @ 45 # i) \<and> 45 \<notin> set f \<and> 45 \<notin> set i"
proof -
  from assms obtain s where s: "h = Str s"
    unfolding convert_height_inches_spec by (cases h) simp_all
  with assms obtain f i where "split 45 s = [f, i]"
    unfolding convert_height_inches_spec by (auto split: list.splits)
  from split_two[OF this] s show ?thesis by blast
qed

text \<open>
  Claim C5, as stated, fails in both halves. Some inputs that are not two dash-separated
  plain integers are decoded all the same, because \<open>int\<close> accepts underscores between
  digits and whitespace around a literal. And under the default cap of 4300 digits a
  string of two plain integers of which one has 4301 digits decodes to missing.
\<close>

theorem height_decoding_counterexample:
  "split 45 (ascii ''6_0-2'') = [ascii ''6_0'', ascii ''2'']
   \<and> \<not> digits_only (ascii ''6_0'')
   \<and> convert_height_inches cpython_3_11 (Str (ascii ''6_0-2'')) = Some 722
   \<and> split 45 (ascii '' 6-2'') = [ascii '' 6'', ascii ''2'']
   \<and> \<not> digits_only (ascii '' 6'')
   \<and> convert_height_inches cpython_3_11 (Str (ascii '' 6-2'')) = Some 74
   \<and> digits_only (replicate 4301 48) \<and> digits_only (ascii ''2'')
   \<and> convert_height_inches cpython_3_11 (Str (replicate 4301 48 @ ascii ''-2'')) = None"
proof -
  have a: "digits_only (replicate 4301 48)" "digits_only (ascii ''2'')"
    by (simp_all add: digits_only_def is_digit_def ascii_def list_all_iff)
  have "exceeds_limit cpython_3_11 (length (replicate 4301 (48::nat)))"
    by (simp add: exceeds_limit_def cpython_3_11_def)
  then have "convert_height_inches cpython_3_11 (Str (replicate 4301 48 @ 45 # ascii ''2'')) = None"
    using convert_height_inches_plain[OF a, of cpython_3_11] by simp
  moreover have "replicate 4301 48 @ ascii ''-2'' = replicate 4301 48 @ 45 # ascii ''2''"
    by (simp add: ascii_def)
  moreover have "split 45 (ascii ''6_0-2'') = [ascii ''6_0'', ascii ''2'']
   \<and> \<not> digits_only (ascii ''6_0'')
   \<and> convert_height_inches cpython_3_11 (Str (ascii ''6_0-2'')) = Some 722
   \<and> split 45 (ascii '' 6-2'') = [ascii '' 6'', ascii ''2'']
   \<and> \<not> digits_only (ascii '' 6'')
   \<and> convert_height_inches cpython_3_11 (Str (ascii '' 6-2'')) = Some 74"
    by (simp add: ascii_def digits_only_def convert_height_inches_def py_int_def unsigned_def
          strip_def to_ascii_def py_isspace_def is_digit_def digit_val_def exceeds_limit_def)
  ultimately show ?thesis using a by simp
qed

text \<open>
  Claim C5, amended. For every string \<open><feet>-<inches>\<close> of two plain integers (one or
  more ASCII decimal digits each) the conversion returns \<open>feet*12 + inches\<close>, unless one
  of the two has more digits than the interpreter's cap for \<open>int\<close> allows, in which case
  it returns missing. In general it returns \<open>feet*12 + inches\<close> exactly when the input is a
  string that splits at the dashes into two fields each of which \<open>int\<close> reads (decimal
  digits of any script in groups joined by single underscores, after an optional plus
  sign, with whitespace allowed around them, within the cap), and it returns missing, never
  raising, for every other input; in particular a string that decodes has exactly one dash.
\<close>

theorem height_decoding:
  "(digits_only f \<and> digits_only i \<longrightarrow>
      convert_height_inches I (Str (f @ 45 # i)) =
        (if exceeds_limit I (length f) \<or> exceeds_limit I (length i) then None
         else Some (decimal f * 12 + decimal i)))
   \<and> convert_height_inches I h =
       (case h of
          Str s \<Rightarrow>
            (case split 45 s of
               [a, b] \<Rightarrow> if int_literal I a \<and> int_literal I b
                         then Some (literal_value I a * 12 + literal_value I b) else None
             | _ \<Rightarrow> None)
        | _ \<Rightarrow> None)
   \<and> (convert_height_inches I h = Some n \<longrightarrow>
        (\<exists>a b. h = Str (a @ 45 # b) \<and> 45 \<notin> set a \<and> 45 \<notin> set b))"
  using convert_height_inches_plain [of f i I] convert_height_inches_spec [of I h]
        convert_height_inches_shape [of I h n]
  by blast

text \<open>
  The examples of the specification, and a height written in fullwidth digits behind an em
  space (code points 8195, 65302, 45, 65298).
\<close>

theorem height_decoding_witness:
  "digits_only (ascii ''6'') \<and> digits_only (ascii ''2'')
   \<and> convert_height_inches cpython_3_11 (Str (ascii ''6-2'')) = Some 74
   \<and> digits_only (ascii ''5'') \<and> digits_only (ascii ''11'')
   \<and> convert_height_inches cpython_3_11 (Str (ascii ''5-11'')) = Some 71
   \<and> convert_height_inches cpython_3_11 (Str (ascii ''garbage'')) = None
   \<and> convert_height_inches cpython_3_11 (Str []) = None
   \<and> convert_height_inches cpython_3_11 (Str [8195, 65302, 45, 65298]) = Some 74"
  using height_decoding [of "ascii ''6''" "ascii ''2''" cpython_3_11 "Str (ascii ''garbage'')"]
        height_decoding [of "ascii ''5''" "ascii ''11''" cpython_3_11 "Str []"]
        height_decoding [of "ascii ''6''" "ascii ''2''" cpython_3_11
                            "Str [8195, 65302, 45, 65298]"]
  by (simp add: ascii_def digits_only_def decimal_def is_digit_def digit_val_def
        int_literal_def literal_value_def unsigned_literal_def strip_def py_isspace_def
        to_ascii_def exceeds_limit_def cpython_3_11_def cpython_isspace_def
        cpython_todecimal_def decimal_zeros_def)

section \<open>Height decoding after the join\<close>

lemma key_match_subset_cols:
  "key_match l r = (subset_cols l = (combine_row.Player r, combine_row.School r, combine_row.draft_year r))"
  by (auto simp: key_match_def subset_cols_def)

lemma unmatched_key_rows:
  assumes "filter (key_match d) right = []"
    and "m \<in> set (merge left right)" and "subset_cols m = subset_cols d"
  shows "\<exists>l. m = unmatched l"
proof -
  from assms(2) obtain l where l: "l \<in> set left" "m \<in> set (join_row right l)"
    by (auto simp: merge_def)
  then have "subset_cols m = subset_cols l"
    using join_row_keys[of right l] by auto
  with assms(3) have "key_match l = key_match d"
    by (auto simp: key_match_subset_cols fun_eq_iff)
  with assms(1) l(2) show ?thesis by (auto simp: join_row_def)
qed

lemma convert_height_inches_NaN: "convert_height_inches I NaN = None"
  by (simp add: convert_height_inches_def)

lemma apply_Ht_unmatched:
  "apply_Ht I [drop_row (unmatched l)] = [r] \<Longrightarrow>
     pruned_row.Ht r = NaN \<and> pruned_row.Wt r = None \<and> pruned_row.Forty_yd r = None
     \<and> pruned_row.Vertical r = None \<and> pruned_row.Bench r = None
     \<and> pruned_row.Broad_Jump r = None \<and> pruned_row.Cone_3 r = None
     \<and> pruned_row.Shuttle r = None"
  by (auto simp: apply_Ht_def drop_row_def unmatched_def draft_row.defs convert_height_inches_NaN)

lemma subset_cols_apply_Ht [simp]: "map subset_cols (apply_Ht I rs) = map subset_cols rs"
  by (simp add: apply_Ht_def subset_cols_def)

text \<open>
  Claim C10. Height decoding is total over the column it is applied to: every exception of
  the body becomes the result \<open>None\<close>, and NaN, which is not a string, decodes to missing.
  A draft row that no Combine row matches in the join therefore still has, at the end of
  the pipeline, a row for its key, and every row with that key has all eight measurement
  columns missing, \<open>Ht\<close> included.
\<close>

theorem height_decoding_total:
  assumes "d \<in> set (replace df0)"
    and "filter (key_match d) (linker (replace df0) combine_df0) = []"
  shows "convert_height_inches I NaN = None
       \<and> (\<forall>height e. convert_height_body I height = Inl e \<longrightarrow> convert_height_inches I height = None)
       \<and> (\<exists>r \<in> set (pipeline I df0 combine_df0). subset_cols r = subset_cols d)
       \<and> (\<forall>r \<in> set (pipeline I df0 combine_df0). subset_cols r = subset_cols d \<longrightarrow>
             pruned_row.Ht r = NaN \<and> pruned_row.Wt r = None
             \<and> pruned_row.Forty_yd r = None \<and> pruned_row.Vertical r = None
             \<and> pruned_row.Bench r = None \<and> pruned_row.Broad_Jump r = None
             \<and> pruned_row.Cone_3 r = None \<and> pruned_row.Shuttle r = None)"
proof -
  let ?df = "replace df0" and ?cdf = "linker (replace df0) combine_df0"
  let ?dd = "drop_duplicates (drop_cols (merge ?df ?cdf))"
  have p: "pipeline I df0 combine_df0 = apply_Ht I ?dd"
    by (simp add: pipeline_def Let_def)
  have "set (map subset_cols (pipeline I df0 combine_df0)) = set (map subset_cols ?df)"
    unfolding p subset_cols_apply_Ht drop_duplicates_def keys_drop_duplicates_from merge_keys
    by simp
  with assms(1) have ex: "\<exists>r \<in> set (pipeline I df0 combine_df0). subset_cols r = subset_cols d"
    by (metis (no_types, lifting) image_iff list.set_map)
  have all: "pruned_row.Ht r = NaN \<and> pruned_row.Wt r = None
             \<and> pruned_row.Forty_yd r = None \<and> pruned_row.Vertical r = None
             \<and> pruned_row.Bench r = None \<and> pruned_row.Broad_Jump r = None
             \<and> pruned_row.Cone_3 r = None \<and> pruned_row.Shuttle r = None"
    if r: "r \<in> set (pipeline I df0 combine_df0)" and k: "subset_cols r = subset_cols d" for r
  proof -
    from r obtain q where q: "q \<in> set ?dd" and rq: "apply_Ht I [q] = [r]"
      by (auto simp: p apply_Ht_def)
    from q have "q \<in> set (drop_cols (merge ?df ?cdf))"
      using set_drop_duplicates_from by (auto simp: drop_duplicates_def)
    then obtain m where m: "m \<in> set (merge ?df ?cdf)" and qm: "q = drop_row m"
      by (auto simp: drop_cols_def)
    have "subset_cols r = subset_cols q"
      using subset_cols_apply_Ht[of I "[q]"] rq by simp
    with k qm have "subset_cols m = subset_cols d" by simp
    from unmatched_key_rows[OF assms(2) m this] obtain l where "m = unmatched l" ..
    with qm rq show ?thesis using apply_Ht_unmatched by blast
  qed
  have "convert_height_inches I height = None" if "convert_height_body I height = Inl e" for height e
    using that by (simp add: convert_height_inches_def)
  with ex all show ?thesis by (simp add: convert_height_inches_NaN)
qed

text \<open>The end-to-end scenario: the 2000 row is measured and decoded, the 2001 row is not.\<close>

text \<open>The end-to-end scenario: the 2000 row is measured and decoded, the 2001 row is not.\<close>

theorem height_decoding_total_witness:
  "\<lparr>Year = Some 2001, Round = Some 2, Overall = Some 40, Name = Some ''Bo Best'',
    draft_row.School = Some ''Iowa'', Position = Some ''T'', Team = Some ''JETS''\<rparr>
     \<in> set (replace
         [\<lparr>Year = Some 2000, Round = Some 1, Overall = Some 5, Name = Some ''Al Ace'',
           draft_row.School = Some ''Iowa'', Position = Some ''QB'', Team = Some ''BEARS''\<rparr>,
          \<lparr>Year = Some 2001, Round = Some 2, Overall = Some 40, Name = Some ''Bo Best'',
           draft_row.School = Some ''Iowa'', Position = Some ''T'', Team = Some ''JETS''\<rparr>])
   \<and> filter (key_match
         \<lparr>Year = Some 2001, Round = Some 2, Overall = Some 40, Name = Some ''Bo Best'',
          draft_row.School = Some ''Iowa'', Position = Some ''T'', Team = Some ''JETS''\<rparr>)
       (linker (replace
         [\<lparr>Year = Some 2000, Round = Some 1, Overall = Some 5, Name = Some ''Al Ace'',
           draft_row.School = Some ''Iowa'', Position = Some ''QB'', Team = Some ''BEARS''\<rparr>,
          \<lparr>Year = Some 2001, Round = Some 2, Overall = Some 40, Name = Some ''Bo Best'',
           draft_row.School = Some ''Iowa'', Position = Some ''T'', Team = Some ''JETS''\<rparr>])
         [\<lparr>combine_row.Player = Some ''Al Ace'', combine_row.School = Some ''Iowa'',
           combine_row.draft_year = Some 2000, combine_row.Pos = Some ''QB'',
           combine_row.Ht = Str (ascii ''6-2''), combine_row.Wt = Some 215,
           combine_row.Forty_yd = None, combine_row.Vertical = None,
           combine_row.Bench = None, combine_row.Broad_Jump = None,
           combine_row.Cone_3 = None, combine_row.Shuttle = None\<rparr>]) = []
   \<and> pipeline cpython_3_11
       [\<lparr>Year = Some 2000, Round = Some 1, Overall = Some 5, Name = Some ''Al Ace'',
         draft_row.School = Some ''Iowa'', Position = Some ''QB'', Team = Some ''BEARS''\<rparr>,
        \<lparr>Year = Some 2001, Round = Some 2, Overall = Some 40, Name = Some ''Bo Best'',
         draft_row.School = Some ''Iowa'', Position = Some ''T'', Team = Some ''JETS''\<rparr>]
       [\<lparr>combine_row.Player = Some ''Al Ace'', combine_row.School = Some ''Iowa'',
         combine_row.draft_year = Some 2000, combine_row.Pos = Some ''QB'',
         combine_row.Ht = Str (ascii ''6-2''), combine_row.Wt = Some 215,
         combine_row.Forty_yd = None, combine_row.Vertical = None,
         combine_row.Bench = None, combine_row.Broad_Jump = None,
         combine_row.Cone_3 = None, combine_row.Shuttle = None\<rparr>]
     = [\<lparr>Year = Some 2000, Round = Some 1, Overall = Some 5, Name = Some ''Al Ace'',
         draft_row.School = Some ''Iowa'', Position = Some ''QB'', Team = Some ''BEARS'',
         pruned_row.Ht = Num 74, pruned_row.Wt = Some 215,
         pruned_row.Forty_yd = None, pruned_row.Vertical = None,
         pruned_row.Bench = None, pruned_row.Broad_Jump = None,
         pruned_row.Cone_3 = None, pruned_row.Shuttle = None\<rparr>,
        \<lparr>Year = Some 2001, Round = Some 2, Overall = Some 40, Name = Some ''Bo Best'',
         draft_row.School = Some ''Iowa'', Position = Some ''T'', Team = Some ''JETS'',
         pruned_row.Ht = NaN, pruned_row.Wt = None,
         pruned_row.Forty_yd = None, pruned_row.Vertical = None,
         pruned_row.Bench = None, pruned_row.Broad_Jump = None,
         pruned_row.Cone_3 = None, pruned_row.Shuttle = None\<rparr>]"
  using height_decoding_total
    [of "\<lparr>Year = Some 2001, Round = Some 2, Overall = Some 40, Name = Some ''Bo Best'',
          draft_row.School = Some ''Iowa'', Position = Some ''T'', Team = Some ''JETS''\<rparr>"
        "[\<lparr>Year = Some 2000, Round = Some 1, Overall = Some 5, Name = Some ''Al Ace'',
           draft_row.School = Some ''Iowa'', Position = Some ''QB'', Team = Some ''BEARS''\<rparr>,
          \<lparr>Year = Some 2001, Round = Some 2, Overall = Some 40, Name = Some ''Bo Best'',
           draft_row.School = Some ''Iowa'', Position = Some ''T'', Team = Some ''JETS''\<rparr>]"
        "[\<lparr>combine_row.Player = Some ''Al Ace'', combine_row.School = Some ''Iowa'',
           combine_row.draft_year = Some 2000, combine_row.Pos = Some ''QB'',
           combine_row.Ht = Str (ascii ''6-2''), combine_row.Wt = Some 215,
           combine_row.Forty_yd = None, combine_row.Vertical = None,
           combine_row.Bench = None, combine_row.Broad_Jump = None,
           combine_row.Cone_3 = None, combine_row.Shuttle = None\<rparr>]"
        cpython_3_11]
  by (simp add: pipeline_def replace_def replace_row_def replace_cell_def
        linker_def link_step_def matching_row_index_def py_eq_def
        merge_def join_row_def key_match_def matched_def unmatched_def
        drop_cols_def drop_row_def draft_row.defs drop_duplicates_def subset_cols_def
        apply_Ht_def convert_height_inches_def py_int_def unsigned_def strip_def
        to_ascii_def ascii_def exceeds_limit_def py_isspace_def is_digit_def digit_val_def)


end
